theory Spec2Isabelle
  imports Complex_Main
begin

section \<open>JavaScript numbers\<close>

text \<open>
  The program computes with JavaScript numbers. A finite number is idealised as a real
  (rounding, overflow and the sign of zero are not modelled); the three special values
  are kept, because the source divides by a quantity that can be zero and then passes
  the quotient to \<open>Math.min\<close> and \<open>Math.max\<close>. HOL's own division has
  \<open>a / 0 = 0\<close>; JavaScript's has \<open>a / 0 = +/-Infinity\<close> (\<open>NaN\<close> for \<open>0 / 0\<close>),
  so every operator of the source is one of the \<open>js_\<close> functions below, which follow
  the ECMAScript rules for \<open>Number::add\<close>, \<open>Number::multiply\<close>, \<open>Number::divide\<close>,
  \<open>Math.sqrt\<close>, \<open>Math.min\<close> and \<open>Math.max\<close>. A zero divisor is taken as \<open>+0\<close>.
\<close>

datatype jsnum = Num real | PosInf | NegInf | NaN

fun is_zero :: "jsnum \<Rightarrow> bool" where
  "is_zero (Num a) = (a = 0)"
| "is_zero _ = False"

fun js_negative :: "jsnum \<Rightarrow> bool" where
  "js_negative (Num a) = (a < 0)"
| "js_negative NegInf = True"
| "js_negative _ = False"

fun js_neg :: "jsnum \<Rightarrow> jsnum" where
  "js_neg (Num a) = Num (- a)"
| "js_neg PosInf = NegInf"
| "js_neg NegInf = PosInf"
| "js_neg NaN = NaN"

fun js_add :: "jsnum \<Rightarrow> jsnum \<Rightarrow> jsnum" where
  "js_add (Num a) (Num b) = Num (a + b)"
| "js_add NaN _ = NaN"
| "js_add _ NaN = NaN"
| "js_add PosInf NegInf = NaN"
| "js_add NegInf PosInf = NaN"
| "js_add PosInf _ = PosInf"
| "js_add _ PosInf = PosInf"
| "js_add NegInf _ = NegInf"
| "js_add _ NegInf = NegInf"

definition js_sub :: "jsnum \<Rightarrow> jsnum \<Rightarrow> jsnum" where
  "js_sub a b = js_add a (js_neg b)"

fun js_mul :: "jsnum \<Rightarrow> jsnum \<Rightarrow> jsnum" where
  "js_mul (Num a) (Num b) = Num (a * b)"
| "js_mul NaN _ = NaN"
| "js_mul _ NaN = NaN"
| "js_mul a b =
     (if is_zero a \<or> is_zero b then NaN
      else if js_negative a = js_negative b then PosInf else NegInf)"

fun js_div :: "jsnum \<Rightarrow> jsnum \<Rightarrow> jsnum" where
  "js_div (Num a) (Num b) =
     (if b = 0 then (if a = 0 then NaN else if 0 < a then PosInf else NegInf)
      else Num (a / b))"
| "js_div NaN _ = NaN"
| "js_div _ NaN = NaN"
| "js_div (Num a) _ = Num 0"
| "js_div a (Num b) = (if js_negative a = (b < 0) then PosInf else NegInf)"
| "js_div _ _ = NaN"

fun js_sqrt :: "jsnum \<Rightarrow> jsnum" where
  "js_sqrt (Num a) = (if a < 0 then NaN else Num (sqrt a))"
| "js_sqrt PosInf = PosInf"
| "js_sqrt _ = NaN"

text \<open>The comparison \<open><\<close> of two numbers: false as soon as one of them is \<open>NaN\<close>.\<close>

fun js_lt :: "jsnum \<Rightarrow> jsnum \<Rightarrow> bool" where
  "js_lt (Num a) (Num b) = (a < b)"
| "js_lt NaN _ = False"
| "js_lt _ NaN = False"
| "js_lt NegInf NegInf = False"
| "js_lt NegInf _ = True"
| "js_lt _ NegInf = False"
| "js_lt PosInf _ = False"
| "js_lt _ PosInf = True"


definition js_min :: "jsnum \<Rightarrow> jsnum \<Rightarrow> jsnum" where
  "js_min a b = (if a = NaN \<or> b = NaN then NaN else if js_lt b a then b else a)"

definition js_max :: "jsnum \<Rightarrow> jsnum \<Rightarrow> jsnum" where
  "js_max a b = (if a = NaN \<or> b = NaN then NaN else if js_lt a b then b else a)"

fun js_finite :: "jsnum \<Rightarrow> bool" where
  "js_finite (Num a) = True"
| "js_finite _ = False"

section \<open>Configuration and state of \<open>main.js\<close>\<close>

definition IPD_MM :: jsnum where
  "IPD_MM = Num 63"

definition SCREEN_WIDTH_M :: jsnum where
  "SCREEN_WIDTH_M = Num 0.28"

definition SCREEN_HEIGHT_M :: jsnum where
  "SCREEN_HEIGHT_M = Num 0.16"

definition LEFT_EYE_INDEX :: nat where
  "LEFT_EYE_INDEX = 33"

definition RIGHT_EYE_INDEX :: nat where
  "RIGHT_EYE_INDEX = 263"

text \<open>
  A landmark of the detector: normalized image coordinates, finite numbers. The
  JavaScript fields \<open>x\<close>, \<open>y\<close>, \<open>z\<close> carry a prefix here, for the landmark and for
  the viewer position, so that the two records do not share selector names.
\<close>

record landmark =
  lm_x :: real
  lm_y :: real
  lm_z :: real

text \<open>The object \<open>viewerPosition\<close>: its fields are computed, so they are JavaScript numbers.\<close>

record position =
  pos_x :: jsnum
  pos_y :: jsnum
  pos_z :: jsnum

text \<open>Of the video element the estimator reads \<open>videoWidth\<close> only, an unsigned integer.\<close>

record video_element =
  videoWidth :: nat

text \<open>
  The globals the estimator touches: \<open>video\<close> is \<open>null\<close> until the webcam is set up,
  \<open>viewerPosition\<close> is the one mutable position object.
\<close>

record app_state =
  video :: "video_element option"
  viewerPosition :: position

definition initial_viewerPosition :: position where
  "initial_viewerPosition = \<lparr>pos_x = Num 0, pos_y = Num 0, pos_z = Num 0.5\<rparr>"

definition initial_state :: app_state where
  "initial_state = \<lparr>video = None, viewerPosition = initial_viewerPosition\<rparr>"

datatype error = TypeError

section \<open>Position estimation\<close>

text \<open>Lines 139 to 141: the distance of the two eye landmarks in normalized coordinates.\<close>

definition ipdPixels_of :: "landmark \<Rightarrow> landmark \<Rightarrow> jsnum" where
  "ipdPixels_of leftEye rightEye =
     (let dx = js_sub (Num (lm_x rightEye)) (Num (lm_x leftEye));
          dy = js_sub (Num (lm_y rightEye)) (Num (lm_y leftEye))
      in js_sqrt (js_add (js_mul dx dx) (js_mul dy dy)))"

text \<open>Line 147: \<open>ipdPixels * videoWidth / (IPD_MM / 1000)\<close>.\<close>

definition ipdRatio_of :: "landmark \<Rightarrow> landmark \<Rightarrow> nat \<Rightarrow> jsnum" where
  "ipdRatio_of leftEye rightEye w =
     js_div (js_mul (ipdPixels_of leftEye rightEye) (Num (real w)))
            (js_div IPD_MM (Num 1000))"

text \<open>Line 148, the quotient before it is clamped: \<open>SCREEN_WIDTH_M / ipdRatio\<close>.\<close>

definition unclampedZ_of :: "landmark \<Rightarrow> landmark \<Rightarrow> nat \<Rightarrow> jsnum" where
  "unclampedZ_of leftEye rightEye w = js_div SCREEN_WIDTH_M (ipdRatio_of leftEye rightEye w)"

text \<open>Line 148: \<open>Math.max(0.2, Math.min(2.0, SCREEN_WIDTH_M / ipdRatio))\<close>.\<close>

definition estimatedZ_of :: "landmark \<Rightarrow> landmark \<Rightarrow> nat \<Rightarrow> jsnum" where
  "estimatedZ_of leftEye rightEye w =
     js_max (Num 0.2) (js_min (Num 2.0) (unclampedZ_of leftEye rightEye w))"

text \<open>Lines 151 and 156: the raw lateral offset \<open>x\<close>.\<close>

definition rawX_of :: "landmark \<Rightarrow> landmark \<Rightarrow> nat \<Rightarrow> jsnum" where
  "rawX_of leftEye rightEye w =
     (let centerX = js_div (js_add (Num (lm_x leftEye)) (Num (lm_x rightEye))) (Num 2)
      in js_mul (js_mul (js_sub centerX (Num 0.5)) SCREEN_WIDTH_M)
                (js_div (estimatedZ_of leftEye rightEye w) (Num 0.5)))"

text \<open>Lines 152 and 157: the raw vertical offset \<open>y\<close>.\<close>

definition rawY_of :: "landmark \<Rightarrow> landmark \<Rightarrow> nat \<Rightarrow> jsnum" where
  "rawY_of leftEye rightEye w =
     (let centerY = js_div (js_add (Num (lm_y leftEye)) (Num (lm_y rightEye))) (Num 2)
      in js_mul (js_mul (js_sub (Num 0.5) centerY) SCREEN_HEIGHT_M)
                (js_div (estimatedZ_of leftEye rightEye w) (Num 0.5)))"

text \<open>Lines 160 to 163: \<open>previous * smoothing + raw * (1 - smoothing)\<close>.\<close>

definition smoothing :: jsnum where
  "smoothing = Num 0.7"

definition smooth :: "jsnum \<Rightarrow> jsnum \<Rightarrow> jsnum" where
  "smooth previous raw =
     js_add (js_mul previous smoothing) (js_mul raw (js_sub (Num 1) smoothing))"

text \<open>
  \<open>estimateViewerPosition(landmarks)\<close>. The argument is \<open>null\<close> (\<open>None\<close>) or an array.
  The result is the returned object together with the state after the call; the
  returned object is the global \<open>viewerPosition\<close> itself. Reading \<open>video.videoWidth\<close>
  while \<open>video\<close> is \<open>null\<close> throws a \<open>TypeError\<close>, before anything is written.
\<close>

definition estimateViewerPosition ::
  "landmark list option \<Rightarrow> app_state \<Rightarrow> error + (position \<times> app_state)" where
  "estimateViewerPosition landmarks st =
     (case landmarks of
        None \<Rightarrow> Inr (viewerPosition st, st)
      | Some ls \<Rightarrow>
          if length ls < 478 then Inr (viewerPosition st, st)
          else
            (let leftEye = ls ! LEFT_EYE_INDEX;
                 rightEye = ls ! RIGHT_EYE_INDEX
             in case video st of
                  None \<Rightarrow> Inl TypeError
                | Some v \<Rightarrow>
                    (let w = videoWidth v;
                         estimatedZ = estimatedZ_of leftEye rightEye w;
                         x = rawX_of leftEye rightEye w;
                         y = rawY_of leftEye rightEye w;
                         p = viewerPosition st;
                         p' = \<lparr>pos_x = smooth (pos_x p) x,
                               pos_y = smooth (pos_y p) y,
                               pos_z = smooth (pos_z p) estimatedZ\<rparr>
                     in Inr (p', st\<lparr>viewerPosition := p'\<rparr>))))"

section \<open>Off-axis projection\<close>

text \<open>
  What \<open>updateCameraProjection(viewerPos)\<close> hands to the camera: the six arguments of
  \<open>makePerspective(left, right, top, bottom, near, far)\<close>, the camera position and the
  point the camera looks at. The local \<open>aspect\<close> of the source is computed and never
  used, so it has no counterpart here.
\<close>

record camera_update =
  fr_left :: jsnum
  fr_right :: jsnum
  fr_top :: jsnum
  fr_bottom :: jsnum
  fr_near :: jsnum
  fr_far :: jsnum
  cam_position :: position
  cam_lookAt :: position

definition updateCameraProjection :: "position \<Rightarrow> camera_update" where
  "updateCameraProjection viewerPos =
     (let near = Num 0.01;
          far = Num 10;
          halfWidth = js_div SCREEN_WIDTH_M (Num 2);
          halfHeight = js_div SCREEN_HEIGHT_M (Num 2);
          distance = pos_z viewerPos;
          left = js_div (js_mul (js_sub (js_neg halfWidth) (pos_x viewerPos)) near) distance;
          right = js_div (js_mul (js_sub halfWidth (pos_x viewerPos)) near) distance;
          bottom = js_div (js_mul (js_sub (js_neg halfHeight) (pos_y viewerPos)) near) distance;
          top = js_div (js_mul (js_sub halfHeight (pos_y viewerPos)) near) distance
      in \<lparr>fr_left = left, fr_right = right, fr_top = top, fr_bottom = bottom,
          fr_near = near, fr_far = far,
          cam_position = \<lparr>pos_x = pos_x viewerPos, pos_y = pos_y viewerPos,
                           pos_z = pos_z viewerPos\<rparr>,
          cam_lookAt = \<lparr>pos_x = Num 0, pos_y = Num 0, pos_z = Num 0\<rparr>\<rparr>)"

section \<open>Notions used to state the properties\<close>

text \<open>The planar distance of the two eye landmarks, as a real number.\<close>

definition eye_separation :: "landmark \<Rightarrow> landmark \<Rightarrow> real" where
  "eye_separation leftEye rightEye =
     sqrt ((lm_x rightEye - lm_x leftEye)\<^sup>2 + (lm_y rightEye - lm_y leftEye)\<^sup>2)"

text \<open>
  The projection the specification describes: the ray from the eye \<open>(ex, ey, ez)\<close>
  through the screen point \<open>(cx, cy, 0)\<close> is followed for the fraction \<open>near / ez\<close>
  of its length, which is where it meets the plane at distance \<open>near\<close> in front of
  the eye; the result is the offset of that point from the eye, across and up.
\<close>

definition project_onto_near_plane :: "real \<times> real \<times> real \<Rightarrow> real \<times> real \<Rightarrow> real \<Rightarrow> real \<times> real" where
  "project_onto_near_plane eye corner near =
     (case eye of (ex, ey, ez) \<Rightarrow> case corner of (cx, cy) \<Rightarrow>
        (let t = near / ez in (t * (cx - ex), t * (cy - ey))))"



text \<open>
  The viewer positions the program can hold: the initial one, and whatever a call of
  \<open>estimateViewerPosition\<close> that returns leaves behind, on any landmark argument and
  with any video element. Nothing else in \<open>main.js\<close> writes \<open>viewerPosition\<close>.
\<close>

inductive reachable :: "position \<Rightarrow> bool" where
  initial: "reachable initial_viewerPosition"
| frame: "reachable p \<Longrightarrow>
          estimateViewerPosition landmarks \<lparr>video = v, viewerPosition = p\<rparr> = Inr (p', st') \<Longrightarrow>
          reachable p'"

text \<open>The invariant of the viewer position: finite coordinates, depth within the clamp bounds.\<close>

definition depth_invariant :: "position \<Rightarrow> bool" where
  "depth_invariant p =
     (case pos_z p of Num z \<Rightarrow> 0.2 \<le> z \<and> z \<le> 2.0 \<and> js_finite (pos_x p) \<and> js_finite (pos_y p)
      | _ \<Rightarrow> False)"

text \<open>Concrete inputs: a full landmark array with the two eyes given, and a state with a video.\<close>

definition eyes_frame :: "landmark \<Rightarrow> landmark \<Rightarrow> landmark list" where
  "eyes_frame leftEye rightEye =
     (replicate 478 \<lparr>lm_x = 0.5, lm_y = 0.5, lm_z = 0\<rparr>)
       [LEFT_EYE_INDEX := leftEye, RIGHT_EYE_INDEX := rightEye]"

definition scenario_frame :: "landmark list" where
  "scenario_frame = eyes_frame \<lparr>lm_x = 0.45, lm_y = 0.5, lm_z = 0\<rparr> \<lparr>lm_x = 0.55, lm_y = 0.5, lm_z = 0\<rparr>"

definition tracking_state :: "nat \<Rightarrow> app_state" where
  "tracking_state w = \<lparr>video = Some \<lparr>videoWidth = w\<rparr>, viewerPosition = initial_viewerPosition\<rparr>"

section \<open>Facts about the estimator and the projector\<close>

lemma js_finite_iff: "js_finite a \<longleftrightarrow> (\<exists>v. a = Num v)"
  by (cases a) simp_all


lemma eye_separation_coincident:
  "lm_x l = lm_x r \<Longrightarrow> lm_y l = lm_y r \<Longrightarrow> eye_separation l r = 0"
  by (simp add: eye_separation_def)


lemma ipdPixels_of_Num: "ipdPixels_of l r = Num (eye_separation l r)"
  by (simp add: ipdPixels_of_def eye_separation_def js_sub_def Let_def power2_eq_square not_less)

lemma ipdRatio_of_Num: "ipdRatio_of l r w = Num (eye_separation l r * real w / (63 / 1000))"
  by (simp add: ipdRatio_of_def ipdPixels_of_Num IPD_MM_def)

lemma unclampedZ_of_cases:
  "unclampedZ_of l r w =
     (if eye_separation l r * real w = 0 then PosInf
      else Num (0.28 / (eye_separation l r * real w / (63 / 1000))))"
  by (simp add: unclampedZ_of_def ipdRatio_of_Num SCREEN_WIDTH_M_def)

lemma estimatedZ_of_cases:
  "estimatedZ_of l r w =
     (if eye_separation l r * real w = 0 then Num 2
      else Num (max 0.2 (min 2 (0.28 / (eye_separation l r * real w / (63 / 1000))))))"
  by (simp add: estimatedZ_of_def unclampedZ_of_cases js_min_def js_max_def max_def min_def)


lemma estimatedZ_of_range:
  "\<exists>v. estimatedZ_of l r w = Num v \<and> 0.2 \<le> v \<and> v \<le> 2"
proof (cases "eye_separation l r * real w = 0")
  case True
  then show ?thesis by (simp add: estimatedZ_of_cases)
next
  case False
  have "(0.2::real) \<le> max 0.2 (min 2 (0.28 / (eye_separation l r * real w / (63 / 1000))))"
    by (rule max.cobounded1)
  moreover have "max 0.2 (min 2 (0.28 / (eye_separation l r * real w / (63 / 1000)))) \<le> (2::real)"
    by (rule max.boundedI) simp_all
  ultimately show ?thesis using False by (simp only: estimatedZ_of_cases if_False) blast
qed


lemma smooth_Num: "smooth (Num s) (Num r) = Num (s * 0.7 + r * 0.3)"
  by (simp add: smooth_def smoothing_def js_sub_def)


lemma smooth_in_range:
  fixes s r :: real
  assumes "0.2 \<le> s" "s \<le> 2" "0.2 \<le> r" "r \<le> 2"
  shows "0.2 \<le> s * 0.7 + r * 0.3 \<and> s * 0.7 + r * 0.3 \<le> 2"
  using assms by simp

lemma rawX_of_finite: "js_finite (rawX_of l r w)"
  using estimatedZ_of_range [of l r w]
  by (auto simp: rawX_of_def Let_def js_sub_def SCREEN_WIDTH_M_def)

lemma rawY_of_finite: "js_finite (rawY_of l r w)"
  using estimatedZ_of_range [of l r w]
  by (auto simp: rawY_of_def Let_def js_sub_def SCREEN_HEIGHT_M_def)

lemma estimateViewerPosition_valid:
  assumes "478 \<le> length ls" and "video st = Some v"
  shows "estimateViewerPosition (Some ls) st =
           Inr (\<lparr>pos_x = smooth (pos_x (viewerPosition st))
                            (rawX_of (ls ! LEFT_EYE_INDEX) (ls ! RIGHT_EYE_INDEX) (videoWidth v)),
                 pos_y = smooth (pos_y (viewerPosition st))
                            (rawY_of (ls ! LEFT_EYE_INDEX) (ls ! RIGHT_EYE_INDEX) (videoWidth v)),
                 pos_z = smooth (pos_z (viewerPosition st))
                            (estimatedZ_of (ls ! LEFT_EYE_INDEX) (ls ! RIGHT_EYE_INDEX) (videoWidth v))\<rparr>,
                st\<lparr>viewerPosition :=
                  \<lparr>pos_x = smooth (pos_x (viewerPosition st))
                            (rawX_of (ls ! LEFT_EYE_INDEX) (ls ! RIGHT_EYE_INDEX) (videoWidth v)),
                   pos_y = smooth (pos_y (viewerPosition st))
                            (rawY_of (ls ! LEFT_EYE_INDEX) (ls ! RIGHT_EYE_INDEX) (videoWidth v)),
                   pos_z = smooth (pos_z (viewerPosition st))
                            (estimatedZ_of (ls ! LEFT_EYE_INDEX) (ls ! RIGHT_EYE_INDEX) (videoWidth v))\<rparr>\<rparr>)"
  using assms by (simp add: estimateViewerPosition_def Let_def)

lemma updateCameraProjection_Num:
  assumes "z \<noteq> 0"
  shows "updateCameraProjection \<lparr>pos_x = Num x, pos_y = Num y, pos_z = Num z\<rparr> =
     \<lparr>fr_left = Num ((- (0.28 / 2) - x) * 0.01 / z),
      fr_right = Num ((0.28 / 2 - x) * 0.01 / z),
      fr_top = Num ((0.16 / 2 - y) * 0.01 / z),
      fr_bottom = Num ((- (0.16 / 2) - y) * 0.01 / z),
      fr_near = Num 0.01, fr_far = Num 10,
      cam_position = \<lparr>pos_x = Num x, pos_y = Num y, pos_z = Num z\<rparr>,
      cam_lookAt = \<lparr>pos_x = Num 0, pos_y = Num 0, pos_z = Num 0\<rparr>\<rparr>"
  using assms
  by (simp add: updateCameraProjection_def Let_def js_sub_def SCREEN_WIDTH_M_def SCREEN_HEIGHT_M_def)








lemma depth_invariant_initial: "depth_invariant initial_viewerPosition"
  by (simp add: depth_invariant_def initial_viewerPosition_def)

lemma depth_invariantE:
  assumes "depth_invariant p"
  obtains x y z where "p = \<lparr>pos_x = Num x, pos_y = Num y, pos_z = Num z\<rparr>" "0.2 \<le> z" "z \<le> 2"
proof -
  obtain a b c where p: "p = \<lparr>pos_x = a, pos_y = b, pos_z = c\<rparr>"
    by (cases p) simp
  with assms obtain x y z where "a = Num x" "b = Num y" "c = Num z" "0.2 \<le> z" "z \<le> 2"
    by (auto simp: depth_invariant_def js_finite_iff split: jsnum.splits)
  with p that show ?thesis by blast
qed

lemma depth_invariant_step:
  assumes inv: "depth_invariant (viewerPosition st)"
    and run: "estimateViewerPosition landmarks st = Inr (p', st')"
  shows "depth_invariant p' \<and> viewerPosition st' = p'"
proof (cases "landmarks = None \<or> (\<exists>ls. landmarks = Some ls \<and> length ls < 478)")
  case True
  then have "estimateViewerPosition landmarks st = Inr (viewerPosition st, st)"
    by (auto simp: estimateViewerPosition_def)
  with run have "Inr (p', st') = (Inr (viewerPosition st, st) :: error + position \<times> app_state)"
    by (rule trans [OF sym])
  then have "p' = viewerPosition st" and "st' = st"
    by blast+
  with inv show ?thesis by blast
next
  case False
  then obtain ls where ls: "landmarks = Some ls" "478 \<le> length ls"
    by (cases landmarks) auto
  from run ls obtain v where v: "video st = Some v"
    by (cases "video st") (simp_all add: estimateViewerPosition_def Let_def)
  let ?l = "ls ! LEFT_EYE_INDEX" and ?r = "ls ! RIGHT_EYE_INDEX" and ?w = "videoWidth v"
  obtain x y z where p: "viewerPosition st = \<lparr>pos_x = Num x, pos_y = Num y, pos_z = Num z\<rparr>"
    and z: "0.2 \<le> z" "z \<le> 2"
    using inv by (rule depth_invariantE)
  obtain rx where rx: "rawX_of ?l ?r ?w = Num rx"
    using rawX_of_finite [of ?l ?r ?w] by (auto simp: js_finite_iff)
  obtain ry where ry: "rawY_of ?l ?r ?w = Num ry"
    using rawY_of_finite [of ?l ?r ?w] by (auto simp: js_finite_iff)
  obtain rz where rz: "estimatedZ_of ?l ?r ?w = Num rz" and r: "0.2 \<le> rz" "rz \<le> 2"
    using estimatedZ_of_range [of ?l ?r ?w] by blast
  have "estimateViewerPosition (Some ls) st =
          Inr (\<lparr>pos_x = Num (x * 0.7 + rx * 0.3), pos_y = Num (y * 0.7 + ry * 0.3),
                pos_z = Num (z * 0.7 + rz * 0.3)\<rparr>,
               st\<lparr>viewerPosition := \<lparr>pos_x = Num (x * 0.7 + rx * 0.3),
                  pos_y = Num (y * 0.7 + ry * 0.3), pos_z = Num (z * 0.7 + rz * 0.3)\<rparr>\<rparr>)"
    by (simp only: estimateViewerPosition_valid [OF ls(2) v] p rx ry rz
        position.simps smooth_Num)
  with run ls(1) have p': "p' = \<lparr>pos_x = Num (x * 0.7 + rx * 0.3), pos_y = Num (y * 0.7 + ry * 0.3),
                pos_z = Num (z * 0.7 + rz * 0.3)\<rparr>" and st': "viewerPosition st' = p'"
    by auto
  from smooth_in_range [OF z r] have "depth_invariant p'"
    by (simp add: p' depth_invariant_def)
  with st' show ?thesis by simp
qed

lemma reachable_invariant: "reachable p \<Longrightarrow> depth_invariant p"
proof (induction rule: reachable.induct)
  case initial
  show ?case by (rule depth_invariant_initial)
next
  case (frame p landmarks v p' st')
  from depth_invariant_step [of "\<lparr>video = v, viewerPosition = p\<rparr>" landmarks p' st'] frame
  show ?case by simp
qed

lemma eyes_frame_simps:
  "length (eyes_frame l r) = 478"
  "eyes_frame l r ! LEFT_EYE_INDEX = l"
  "eyes_frame l r ! RIGHT_EYE_INDEX = r"
  by (simp_all add: eyes_frame_def LEFT_EYE_INDEX_def RIGHT_EYE_INDEX_def)

lemma scenario_frame_simps:
  "length scenario_frame = 478"
  "scenario_frame ! LEFT_EYE_INDEX = \<lparr>lm_x = 0.45, lm_y = 0.5, lm_z = 0\<rparr>"
  "scenario_frame ! RIGHT_EYE_INDEX = \<lparr>lm_x = 0.55, lm_y = 0.5, lm_z = 0\<rparr>"
  by (simp_all add: scenario_frame_def eyes_frame_simps)

lemma tracking_state_simps:
  "video (tracking_state w) = Some \<lparr>videoWidth = w\<rparr>"
  "viewerPosition (tracking_state w) = \<lparr>pos_x = Num 0, pos_y = Num 0, pos_z = Num 0.5\<rparr>"
  by (simp_all add: tracking_state_def initial_viewerPosition_def)

lemma scenario_separation:
  assumes "lm_x l = 0.45" "lm_y l = 0.5" "lm_x r = 0.55" "lm_y r = 0.5"
  shows "eye_separation l r = 0.1"
proof -
  have "eye_separation l r = sqrt ((1 / 10)\<^sup>2)"
    by (simp add: eye_separation_def assms power2_eq_square)
  then show ?thesis by simp
qed

lemma scenario_estimatedZ:
  assumes "lm_x l = 0.45" "lm_y l = 0.5" "lm_x r = 0.55" "lm_y r = 0.5"
  shows "unclampedZ_of l r 1280 = Num (0.28 * 0.063 / 128)"
    and "estimatedZ_of l r 1280 = Num 0.2"
  by (simp_all add: unclampedZ_of_cases estimatedZ_of_cases scenario_separation [OF assms])

lemma scenario_raw:
  "rawX_of (scenario_frame ! LEFT_EYE_INDEX) (scenario_frame ! RIGHT_EYE_INDEX) 1280 = Num 0"
  "rawY_of (scenario_frame ! LEFT_EYE_INDEX) (scenario_frame ! RIGHT_EYE_INDEX) 1280 = Num 0"
  "estimatedZ_of (scenario_frame ! LEFT_EYE_INDEX) (scenario_frame ! RIGHT_EYE_INDEX) 1280 = Num 0.2"
proof -
  let ?l = "scenario_frame ! LEFT_EYE_INDEX" and ?r = "scenario_frame ! RIGHT_EYE_INDEX"
  have c: "lm_x ?l = 0.45" "lm_y ?l = 0.5" "lm_x ?r = 0.55" "lm_y ?r = 0.5"
    by (simp_all add: scenario_frame_simps)
  show z: "estimatedZ_of ?l ?r 1280 = Num 0.2"
    by (rule scenario_estimatedZ [OF c])
  show "rawX_of ?l ?r 1280 = Num 0"
    by (simp add: rawX_of_def z c js_sub_def SCREEN_WIDTH_M_def)
  show "rawY_of ?l ?r 1280 = Num 0"
    by (simp add: rawY_of_def z c js_sub_def SCREEN_HEIGHT_M_def)
qed

lemma scenario_reachable: "reachable \<lparr>pos_x = Num 0, pos_y = Num 0, pos_z = Num 0.41\<rparr>"
proof -
  let ?p = "\<lparr>pos_x = Num 0, pos_y = Num 0, pos_z = Num 0.41\<rparr>"
  have h1: "478 \<le> length scenario_frame"
    by (simp add: scenario_frame_simps)
  have "estimateViewerPosition (Some scenario_frame) (tracking_state 1280) =
          Inr (?p, (tracking_state 1280)\<lparr>viewerPosition := ?p\<rparr>)"
    by (simp only: estimateViewerPosition_valid [OF h1 tracking_state_simps(1)]
        video_element.simps scenario_raw tracking_state_simps position.simps smooth_Num) simp
  then have "estimateViewerPosition (Some scenario_frame)
               \<lparr>video = Some \<lparr>videoWidth = 1280\<rparr>, viewerPosition = initial_viewerPosition\<rparr> =
             Inr (?p, (tracking_state 1280)\<lparr>viewerPosition := ?p\<rparr>)"
    by (simp only: tracking_state_def)
  with reachable.initial show ?thesis
    by (rule reachable.frame)
qed

section \<open>The frustum is the projection of the screen corners\<close>

text \<open>
  Claim C1. For a viewer at \<open>(x, y, z)\<close> with \<open>z > 0\<close>, and the near plane \<open>0.01\<close> of
  the source, the bounds \<open>updateCameraProjection\<close> computes are
  \<open>left = (-halfWidth - x) * near / z\<close>, \<open>right = (halfWidth - x) * near / z\<close>,
  \<open>bottom = (-halfHeight - y) * near / z\<close> and \<open>top = (halfHeight - y) * near / z\<close>,
  with \<open>halfWidth\<close> and \<open>halfHeight\<close> half the screen width \<open>0.28\<close> and height \<open>0.16\<close>;
  these are the projections of the lower left and the upper right corner of the screen
  rectangle through the eye onto the near plane.
\<close>

theorem updateCameraProjection_kooima:
  assumes "0 < z"
  shows "let halfWidth = 0.28 / 2; halfHeight = 0.16 / 2; near = 0.01;
             f = updateCameraProjection \<lparr>pos_x = Num x, pos_y = Num y, pos_z = Num z\<rparr>
         in fr_left f = Num ((- halfWidth - x) * near / z)
          \<and> fr_right f = Num ((halfWidth - x) * near / z)
          \<and> fr_bottom f = Num ((- halfHeight - y) * near / z)
          \<and> fr_top f = Num ((halfHeight - y) * near / z)
          \<and> fr_near f = Num near
          \<and> (case project_onto_near_plane (x, y, z) (- halfWidth, - halfHeight) near of
                (l, b) \<Rightarrow> fr_left f = Num l \<and> fr_bottom f = Num b)
          \<and> (case project_onto_near_plane (x, y, z) (halfWidth, halfHeight) near of
                (r, t) \<Rightarrow> fr_right f = Num r \<and> fr_top f = Num t)"
  using assms
  by (simp add: updateCameraProjection_Num project_onto_near_plane_def Let_def)

theorem updateCameraProjection_kooima_witness:
  "(0::real) < 0.5
   \<and> fr_left (updateCameraProjection \<lparr>pos_x = Num 0.04, pos_y = Num 0.03, pos_z = Num 0.5\<rparr>) = Num (- 0.0036)
   \<and> fr_right (updateCameraProjection \<lparr>pos_x = Num 0.04, pos_y = Num 0.03, pos_z = Num 0.5\<rparr>) = Num 0.002
   \<and> fr_bottom (updateCameraProjection \<lparr>pos_x = Num 0.04, pos_y = Num 0.03, pos_z = Num 0.5\<rparr>) = Num (- 0.0022)
   \<and> fr_top (updateCameraProjection \<lparr>pos_x = Num 0.04, pos_y = Num 0.03, pos_z = Num 0.5\<rparr>) = Num 0.001"
  using updateCameraProjection_kooima [of "0.5" "0.04" "0.03"]
  by (simp add: Let_def)

section \<open>The depth estimate and coincident eye points\<close>

text \<open>
  Claim C2 says that the denominator of the depth ratio is clamped to a small positive
  number before the division, so that coincident eye points give the least depth \<open>0.2\<close>.
  The source has no such clamp. With both eyes at \<open>(0.5, 0.5)\<close> and a video 1280 pixels
  wide, \<open>ipdRatio\<close> is exactly \<open>0\<close>, the quotient \<open>SCREEN_WIDTH_M / ipdRatio\<close> is
  \<open>+Infinity\<close>, and \<open>Math.min\<close> brings it down to \<open>2.0\<close>: the estimate is the greatest
  depth, not the least.
\<close>

theorem estimatedZ_coincident_counterexample:
  "ipdRatio_of \<lparr>lm_x = 0.5, lm_y = 0.5, lm_z = 0\<rparr> \<lparr>lm_x = 0.5, lm_y = 0.5, lm_z = 0\<rparr> 1280 = Num 0
   \<and> unclampedZ_of \<lparr>lm_x = 0.5, lm_y = 0.5, lm_z = 0\<rparr> \<lparr>lm_x = 0.5, lm_y = 0.5, lm_z = 0\<rparr> 1280 = PosInf
   \<and> estimatedZ_of \<lparr>lm_x = 0.5, lm_y = 0.5, lm_z = 0\<rparr> \<lparr>lm_x = 0.5, lm_y = 0.5, lm_z = 0\<rparr> 1280 = Num 2
   \<and> estimatedZ_of \<lparr>lm_x = 0.5, lm_y = 0.5, lm_z = 0\<rparr> \<lparr>lm_x = 0.5, lm_y = 0.5, lm_z = 0\<rparr> 1280 \<noteq> Num 0.2"
  by (simp add: estimatedZ_of_def unclampedZ_of_def ipdRatio_of_def ipdPixels_of_def
      js_sub_def js_min_def js_max_def IPD_MM_def SCREEN_WIDTH_M_def)

text \<open>
  Claim C2, amended. For every pair of eye landmarks and every video width the depth
  estimate of \<open>estimateViewerPosition\<close> is a finite number in \<open>[0.2, 2.0]\<close>, never
  \<open>NaN\<close> or infinite. There is no guard on the denominator: when the two eye points
  coincide, \<open>ipdRatio\<close> is \<open>0\<close>, the quotient is \<open>+Infinity\<close>, and the clamp makes the
  estimate \<open>2.0\<close>, the greatest depth.
\<close>

theorem estimatedZ_clamped:
  "(\<exists>v. estimatedZ_of l r w = Num v \<and> 0.2 \<le> v \<and> v \<le> 2)
   \<and> (lm_x l = lm_x r \<and> lm_y l = lm_y r \<longrightarrow>
        ipdRatio_of l r w = Num 0 \<and> unclampedZ_of l r w = PosInf \<and> estimatedZ_of l r w = Num 2)"
  using estimatedZ_of_range [of l r w]
  by (simp add: eye_separation_coincident ipdRatio_of_Num unclampedZ_of_cases estimatedZ_of_cases)

theorem estimatedZ_clamped_witness:
  "(\<exists>v. estimatedZ_of \<lparr>lm_x = 0.4, lm_y = 0.5, lm_z = 0\<rparr> \<lparr>lm_x = 0.4, lm_y = 0.5, lm_z = 0.1\<rparr> 640 = Num v
        \<and> 0.2 \<le> v \<and> v \<le> 2)
   \<and> estimatedZ_of \<lparr>lm_x = 0.4, lm_y = 0.5, lm_z = 0\<rparr> \<lparr>lm_x = 0.4, lm_y = 0.5, lm_z = 0.1\<rparr> 640 = Num 2"
  using estimatedZ_clamped [of "\<lparr>lm_x = 0.4, lm_y = 0.5, lm_z = 0\<rparr>"
                               "\<lparr>lm_x = 0.4, lm_y = 0.5, lm_z = 0.1\<rparr>" 640]
  by simp

section \<open>Tracking loss\<close>

text \<open>
  Claim C3. When the landmark array is absent (\<open>null\<close>) or has fewer than 478 entries,
  \<open>estimateViewerPosition\<close> returns the previous viewer position, leaves the state
  (hence \<open>x\<close>, \<open>y\<close> and \<open>z\<close>) as it was, and raises no error, whatever the state is.
\<close>

theorem estimateViewerPosition_no_update:
  assumes "landmarks = None \<or> (\<exists>ls. landmarks = Some ls \<and> length ls < 478)"
  shows "estimateViewerPosition landmarks st = Inr (viewerPosition st, st)"
  using assms by (auto simp: estimateViewerPosition_def)

theorem estimateViewerPosition_no_update_witness:
  "estimateViewerPosition (Some [\<lparr>lm_x = 0.5, lm_y = 0.5, lm_z = 0\<rparr>]) initial_state
     = Inr (viewerPosition initial_state, initial_state)
   \<and> estimateViewerPosition None initial_state
     = Inr (viewerPosition initial_state, initial_state)"
  using estimateViewerPosition_no_update
          [of "Some [\<lparr>lm_x = 0.5, lm_y = 0.5, lm_z = 0\<rparr>]" initial_state]
        estimateViewerPosition_no_update [of None initial_state]
  by simp

section \<open>A wider eye separation gives a smaller depth\<close>



section \<open>Smoothing stays between the old and the new value\<close>



section \<open>Smoothing converges when the input is held\<close>



section \<open>A centered viewer has a symmetric frustum\<close>

text \<open>
  Claim C7. For a viewer at \<open>x = 0\<close>, \<open>y = 0\<close> and any \<open>z > 0\<close> the frustum of
  \<open>updateCameraProjection\<close> is symmetric: \<open>left = -right\<close> and \<open>bottom = -top\<close>, all
  four finite.
\<close>

theorem updateCameraProjection_centered_symmetric:
  assumes "0 < z"
  shows "let f = updateCameraProjection \<lparr>pos_x = Num 0, pos_y = Num 0, pos_z = Num z\<rparr>
         in js_finite (fr_right f) \<and> js_finite (fr_top f)
          \<and> fr_left f = js_neg (fr_right f) \<and> fr_bottom f = js_neg (fr_top f)"
  using assms by (simp add: updateCameraProjection_Num Let_def)

theorem updateCameraProjection_centered_symmetric_witness:
  "(0::real) < 0.5
   \<and> fr_left (updateCameraProjection \<lparr>pos_x = Num 0, pos_y = Num 0, pos_z = Num 0.5\<rparr>)
       = js_neg (fr_right (updateCameraProjection \<lparr>pos_x = Num 0, pos_y = Num 0, pos_z = Num 0.5\<rparr>))
   \<and> fr_bottom (updateCameraProjection \<lparr>pos_x = Num 0, pos_y = Num 0, pos_z = Num 0.5\<rparr>)
       = js_neg (fr_top (updateCameraProjection \<lparr>pos_x = Num 0, pos_y = Num 0, pos_z = Num 0.5\<rparr>))"
  using updateCameraProjection_centered_symmetric [of "0.5"]
  by (simp add: Let_def)

section \<open>Moving right shifts the frustum left\<close>



section \<open>The scenario with eyes at 0.45 and 0.55\<close>

text \<open>
  Claim C9. With the constants of the source (IPD 63 mm, screen width 0.28 m, smoothing
  0.7), eye landmarks at \<open>(0.45, 0.5)\<close> and \<open>(0.55, 0.5)\<close> and a video 1280 pixels
  wide, the raw depth estimate lies in \<open>[0.2, 2.0]\<close>, and one call of
  \<open>estimateViewerPosition\<close> from the initial position \<open>(0, 0, 0.5)\<close> leaves
  \<open>z = 0.5 * 0.7 + raw * 0.3\<close>. The raw estimate is \<open>0.2\<close> (the quotient is below the
  lower clamp bound), so the new \<open>z\<close> is \<open>0.41\<close>.
\<close>

theorem scenario_two_eyes:
  assumes "478 \<le> length ls"
    and "lm_x (ls ! LEFT_EYE_INDEX) = 0.45" and "lm_y (ls ! LEFT_EYE_INDEX) = 0.5"
    and "lm_x (ls ! RIGHT_EYE_INDEX) = 0.55" and "lm_y (ls ! RIGHT_EYE_INDEX) = 0.5"
  shows "\<exists>raw p st'.
           estimatedZ_of (ls ! LEFT_EYE_INDEX) (ls ! RIGHT_EYE_INDEX) 1280 = Num raw
         \<and> 0.2 \<le> raw \<and> raw \<le> 2.0
         \<and> estimateViewerPosition (Some ls) (tracking_state 1280) = Inr (p, st')
         \<and> viewerPosition st' = p
         \<and> pos_z p = Num (0.5 * 0.7 + raw * 0.3)
         \<and> raw = 0.2 \<and> pos_z p = Num 0.41"
proof -
  let ?l = "ls ! LEFT_EYE_INDEX" and ?r = "ls ! RIGHT_EYE_INDEX"
  have z: "estimatedZ_of ?l ?r 1280 = Num 0.2"
    by (rule scenario_estimatedZ [OF assms(2-5)])
  have v: "video (tracking_state 1280) = Some \<lparr>videoWidth = 1280\<rparr>"
    by (simp add: tracking_state_def)
  let ?p = "\<lparr>pos_x = smooth (Num 0) (rawX_of ?l ?r 1280),
             pos_y = smooth (Num 0) (rawY_of ?l ?r 1280), pos_z = Num 0.41\<rparr>"
  have run: "estimateViewerPosition (Some ls) (tracking_state 1280) =
               Inr (?p, tracking_state 1280\<lparr>viewerPosition := ?p\<rparr>)"
    by (simp only: estimateViewerPosition_valid [OF assms(1) v] video_element.simps z)
      (simp add: tracking_state_def initial_viewerPosition_def smooth_Num)
  show ?thesis
    apply (rule exI [of _ "0.2"], rule exI [of _ ?p])
    apply (rule exI [of _ "tracking_state 1280\<lparr>viewerPosition := ?p\<rparr>"])
    apply (simp add: z run)
    done
qed

theorem scenario_two_eyes_witness:
  "478 \<le> length (eyes_frame \<lparr>lm_x = 0.45, lm_y = 0.5, lm_z = 0\<rparr> \<lparr>lm_x = 0.55, lm_y = 0.5, lm_z = 0\<rparr>)
   \<and> (\<exists>p st'. estimateViewerPosition
         (Some (eyes_frame \<lparr>lm_x = 0.45, lm_y = 0.5, lm_z = 0\<rparr> \<lparr>lm_x = 0.55, lm_y = 0.5, lm_z = 0\<rparr>))
         (tracking_state 1280) = Inr (p, st') \<and> pos_z p = Num 0.41)"
  using scenario_two_eyes
    [of "eyes_frame \<lparr>lm_x = 0.45, lm_y = 0.5, lm_z = 0\<rparr> \<lparr>lm_x = 0.55, lm_y = 0.5, lm_z = 0\<rparr>"]
  by (simp add: eyes_frame_simps) blast

section \<open>The depth of the viewer position stays within the clamp bounds\<close>

text \<open>
  Claim C10. Every viewer position the program can hold has finite coordinates and a
  \<open>z\<close> in \<open>[0.2, 2.0]\<close>: the initial \<open>z\<close> is \<open>0.5\<close>, every depth estimate is clamped
  into \<open>[0.2, 2.0]\<close> before it is smoothed, and the smoothing step is a convex
  combination. So \<open>z\<close> is strictly positive, and the four divisions by \<open>z\<close> in
  \<open>updateCameraProjection\<close> are divisions by a non-zero number with finite results.
\<close>

theorem viewer_depth_invariant:
  assumes "reachable p"
  shows "\<exists>x y z. p = \<lparr>pos_x = Num x, pos_y = Num y, pos_z = Num z\<rparr>
         \<and> 0.2 \<le> z \<and> z \<le> 2.0 \<and> 0 < z
         \<and> pos_z initial_viewerPosition = Num 0.5
         \<and> (\<exists>e. estimatedZ_of l r w = Num e \<and> 0.2 \<le> e \<and> e \<le> 2.0)
         \<and> fr_left (updateCameraProjection p) = Num ((- (0.28 / 2) - x) * 0.01 / z)
         \<and> fr_right (updateCameraProjection p) = Num ((0.28 / 2 - x) * 0.01 / z)
         \<and> fr_bottom (updateCameraProjection p) = Num ((- (0.16 / 2) - y) * 0.01 / z)
         \<and> fr_top (updateCameraProjection p) = Num ((0.16 / 2 - y) * 0.01 / z)"
proof -
  from assms have "depth_invariant p" by (rule reachable_invariant)
  then obtain x y z where p: "p = \<lparr>pos_x = Num x, pos_y = Num y, pos_z = Num z\<rparr>"
    and z: "0.2 \<le> z" "z \<le> 2"
    by (rule depth_invariantE)
  from z have nz: "z \<noteq> 0" and pz: "0 < z" by simp_all
  show ?thesis
    using z pz estimatedZ_of_range [of l r w]
    by (simp add: p updateCameraProjection_Num [OF nz] initial_viewerPosition_def)
qed

theorem viewer_depth_invariant_witness:
  "reachable \<lparr>pos_x = Num 0, pos_y = Num 0, pos_z = Num 0.41\<rparr>
   \<and> js_finite (fr_left (updateCameraProjection \<lparr>pos_x = Num 0, pos_y = Num 0, pos_z = Num 0.41\<rparr>))
   \<and> js_finite (fr_right (updateCameraProjection \<lparr>pos_x = Num 0, pos_y = Num 0, pos_z = Num 0.41\<rparr>))
   \<and> js_finite (fr_bottom (updateCameraProjection \<lparr>pos_x = Num 0, pos_y = Num 0, pos_z = Num 0.41\<rparr>))
   \<and> js_finite (fr_top (updateCameraProjection \<lparr>pos_x = Num 0, pos_y = Num 0, pos_z = Num 0.41\<rparr>))"
  using viewer_depth_invariant [OF scenario_reachable,
          of "\<lparr>lm_x = 0.45, lm_y = 0.5, lm_z = 0\<rparr>" "\<lparr>lm_x = 0.55, lm_y = 0.5, lm_z = 0\<rparr>" 1280]
        scenario_reachable
  by auto

end
